theory Spec2Isabelle
  imports Complex_Main "HOL-Library.Log_Nat"
begin

section \<open>The bridge server (server.js) as a state machine\<close>

text \<open>
  server.js keeps three pieces of module-level state: the ZeroMQ dealer socket to
  MetaTrader (or nothing, when creating it failed), the latest market-data document, and
  the set of connected WebSocket clients. Every handler runs to completion on the single
  event loop, so a handler is a function from the state before to the state after.

  Wire text is abstracted to the document it encodes: an inbound frame is given by the
  outcome of \<^verbatim>\<open>JSON.parse\<close> on it (\<open>None\<close> when it throws SyntaxError), and an
  outbound frame by the value handed to \<^verbatim>\<open>JSON.stringify\<close> or \<^verbatim>\<open>res.json\<close>.
\<close>

subsection \<open>JavaScript values\<close>

text \<open>
  A number is a double in the source and the rational it denotes here. A number that is
  only stored and sent on is written as the decimal of its literal. The handlers test a
  number only for truthiness and for \<^verbatim>\<open>=== 0\<close>; both tests treat \<open>-0\<close> as \<open>0\<close> and an
  infinity as any other non-zero number, and \<^verbatim>\<open>JSON.parse\<close> never yields NaN. An object is the list
  of its own properties, each name once (as \<^verbatim>\<open>JSON.parse\<close> and object literals build it).
\<close>

datatype js =
    JUndefined
  | JNull
  | JBool bool
  | JNum rat
  | JStr string
  | JArr "js list"
  | JObj "(string \<times> js) list"

datatype error = SyntaxError | TypeError | NotOpened | SocketClosed | ZmqError

datatype outcome = Normal | Thrown error

text \<open>The truthiness test of \<^verbatim>\<open>if (v)\<close> and \<^verbatim>\<open>!v\<close>.\<close>

fun truthy :: "js \<Rightarrow> bool" where
  "truthy JUndefined = False"
| "truthy JNull = False"
| "truthy (JBool b) = b"
| "truthy (JNum n) = (n \<noteq> 0)"
| "truthy (JStr s) = (s \<noteq> [])"
| "truthy (JArr xs) = True"
| "truthy (JObj kvs) = True"

text \<open>
  Property read \<^verbatim>\<open>v.k\<close>: a TypeError on \<^verbatim>\<open>null\<close> and \<^verbatim>\<open>undefined\<close>, the own property of
  an object, and \<^verbatim>\<open>undefined\<close> otherwise. None of the names this program reads
  (symbol, bid, type, command, params) is a property of a primitive's, an array's or
  \<^verbatim>\<open>Object\<close>'s prototype.
\<close>

fun get_prop :: "js \<Rightarrow> string \<Rightarrow> error + js" where
  "get_prop JUndefined k = Inl TypeError"
| "get_prop JNull k = Inl TypeError"
| "get_prop (JObj kvs) k = (case map_of kvs k of None \<Rightarrow> Inr JUndefined | Some v \<Rightarrow> Inr v)"
| "get_prop v k = Inr JUndefined"

subsection \<open>Double arithmetic\<close>

text \<open>
  Where the program computes with numbers (only the simulator does), every literal and
  every result is a double: the exact value rounded to the nearest number with a 53-bit
  significand, ties to the even one (IEEE 754 binary64, gradual underflow included;
  overflow to an infinity is not modelled, the simulator's values are all below 10200).
\<close>

definition round_half_even :: "rat \<Rightarrow> int" where
  "round_half_even x =
     (let f = \<lfloor>x\<rfloor>; r = x - of_int f
      in if r < 1 / 2 then f else if 1 / 2 < r then f + 1 else if even f then f else f + 1)"

text \<open>The binary exponent \<open>\<lfloor>log\<^sub>2 \<bar>x\<bar>\<rfloor>\<close> of a non-zero rational.\<close>

definition exponent :: "rat \<Rightarrow> int" where
  "exponent x =
     (case quotient_of \<bar>x\<bar> of
        (p, q) \<Rightarrow>
          (let e0 = bitlen p - bitlen q in if 2 powi e0 \<le> \<bar>x\<bar> then e0 else e0 - 1))"

definition fl :: "rat \<Rightarrow> rat" where
  "fl x =
     (if x = 0 then 0
      else (let ulp = 2 powi (max (exponent x) (- 1022) - 52)
            in of_int (round_half_even (x / ulp)) * ulp))"

definition fadd :: "rat \<Rightarrow> rat \<Rightarrow> rat" where
  "fadd a b = fl (a + b)"

definition fsub :: "rat \<Rightarrow> rat \<Rightarrow> rat" where
  "fsub a b = fl (a - b)"

definition fmul :: "rat \<Rightarrow> rat \<Rightarrow> rat" where
  "fmul a b = fl (a * b)"

subsection \<open>Sockets and the module state\<close>

datatype ready_state = CONNECTING | OPEN | CLOSING | CLOSED

text \<open>A WebSocket as the server sees it: its \<^verbatim>\<open>readyState\<close> and the frames sent on it.\<close>

record ws =
  readyState :: ready_state
  sent :: "js list"

text \<open>
  The dealer socket: whether \<^verbatim>\<open>dealer.connect\<close> returned normally, whether
  \<^verbatim>\<open>dealer.close()\<close> was called (shutdown handler), and the messages accepted by
  \<^verbatim>\<open>dealer.send\<close>.
\<close>

record dealer_socket =
  connected :: bool
  closed :: bool
  outbound :: "js list"

datatype log_entry = Log string "js list" | LogError string error

text \<open>
  \<open>clients\<close> is the \<^verbatim>\<open>Set\<close> of socket references in insertion order; \<open>sockets\<close> is the
  store the references point into (a socket can be referenced by its handlers without
  being a member of \<open>clients\<close>). \<open>console\<close> collects \<^verbatim>\<open>console.log\<close> and
  \<^verbatim>\<open>console.error\<close> calls.
\<close>

record state =
  dealer :: "dealer_socket option"
  marketData :: js
  clients :: "nat list"
  sockets :: "nat \<Rightarrow> ws"
  console :: "log_entry list"

definition log_info :: "string \<Rightarrow> js list \<Rightarrow> state \<Rightarrow> state" where
  "log_info label args s = s\<lparr>console := console s @ [Log label args]\<rparr>"

definition log_error :: "string \<Rightarrow> error \<Rightarrow> state \<Rightarrow> state" where
  "log_error label e s = s\<lparr>console := console s @ [LogError label e]\<rparr>"

subsection \<open>Start-up (lines 28-50)\<close>

text \<open>
  The one connection attempt: \<^verbatim>\<open>zmq.socket\<close> may throw (dealer stays undefined),
  \<^verbatim>\<open>dealer.connect\<close> may throw (dealer is assigned already), or both return.
\<close>

datatype zmq_outcome = SocketThrows | ConnectThrows | Connects

definition initial_marketData :: "string \<Rightarrow> js" where
  "initial_marketData now =
     JObj [(''symbol'', JStr ''EURUSD''), (''bid'', JNum 0), (''ask'', JNum 0),
           (''time'', JStr now), (''balance'', JNum 10000), (''equity'', JNum 10000),
           (''margin'', JNum 0), (''zones'', JArr [])]"

definition startup :: "zmq_outcome \<Rightarrow> string \<Rightarrow> state" where
  "startup z now =
     \<lparr> dealer = (case z of
          SocketThrows \<Rightarrow> None
        | ConnectThrows \<Rightarrow> Some \<lparr>connected = False, closed = False, outbound = []\<rparr>
        | Connects \<Rightarrow> Some \<lparr>connected = True, closed = False, outbound = []\<rparr>),
       marketData = initial_marketData now,
       clients = [],
       sockets = (\<lambda>w. \<lparr>readyState = CLOSED, sent = []\<rparr>),
       console = (case z of
          Connects \<Rightarrow> [Log ''Connected to MT4 at 127.0.0.1:5555'' []]
        | _ \<Rightarrow> [LogError ''Failed to connect to MetaTrader:'' ZmqError]) \<rparr>"

subsection \<open>Sending\<close>

text \<open>
  \<^verbatim>\<open>ws.send\<close>: an open socket takes the frame (transport failures are reported later,
  by events); on a socket that is not open nothing is sent, and the call throws. (Recent
  versions of the library throw only while CONNECTING and return silently on a closing or
  closed socket; for this program the difference is one console entry of the catching
  handler.)
\<close>

definition ws_send :: "js \<Rightarrow> ws \<Rightarrow> outcome \<times> ws" where
  "ws_send m sock =
     (if readyState sock = OPEN then (Normal, sock\<lparr>sent := sent sock @ [m]\<rparr>)
      else (Thrown NotOpened, sock))"

definition dealer_send :: "js \<Rightarrow> dealer_socket \<Rightarrow> outcome \<times> dealer_socket" where
  "dealer_send m d =
     (if closed d then (Thrown SocketClosed, d)
      else (Normal, d\<lparr>outbound := outbound d @ [m]\<rparr>))"

text \<open>\<^verbatim>\<open>sendToMT4\<close> (lines 94-108): no result, no exception leaves it.\<close>

definition sendToMT4 :: "js \<Rightarrow> js \<Rightarrow> state \<Rightarrow> state" where
  "sendToMT4 command params s =
     (case dealer s of
        None \<Rightarrow> s
      | Some d \<Rightarrow>
          (let message = JObj [(''command'', command), (''params'', params)] in
           case dealer_send message d of
             (Thrown e, d') \<Rightarrow> log_error ''Error sending to MT4:'' e (s\<lparr>dealer := Some d'\<rparr>)
           | (Normal, d') \<Rightarrow> log_info ''Sent to MT4:'' [message] (s\<lparr>dealer := Some d'\<rparr>)))"

definition trade_history :: js where
  "trade_history =
     JArr [
       JObj [(''ticket'', JNum 12345), (''symbol'', JStr ''EURUSD''), (''type'', JStr ''BUY''),
             (''openTime'', JStr ''2025-04-16T10:30:00Z''),
             (''closeTime'', JStr ''2025-04-16T14:45:00Z''),
             (''lots'', JNum 0.1), (''openPrice'', JNum 1.0765),
             (''closePrice'', JNum 1.0792), (''profit'', JNum 27), (''pips'', JNum 27)],
       JObj [(''ticket'', JNum 12346), (''symbol'', JStr ''EURUSD''), (''type'', JStr ''SELL''),
             (''openTime'', JStr ''2025-04-15T15:20:00Z''),
             (''closeTime'', JStr ''2025-04-15T17:35:00Z''),
             (''lots'', JNum 0.1), (''openPrice'', JNum 1.0805),
             (''closePrice'', JNum 1.0783), (''profit'', JNum 22), (''pips'', JNum 22)]]"

definition history_message :: js where
  "history_message = JObj [(''type'', JStr ''history_data''), (''data'', trade_history)]"

text \<open>\<^verbatim>\<open>sendTradeHistory(ws)\<close> (lines 111-145), \<open>w\<close> the reference of the socket.\<close>

definition sendTradeHistory :: "nat \<Rightarrow> state \<Rightarrow> outcome \<times> state" where
  "sendTradeHistory w s =
     (case ws_send history_message (sockets s w) of
        (out, sock) \<Rightarrow> (out, s\<lparr>sockets := (sockets s)(w := sock)\<rparr>))"

definition market_data_message :: "js \<Rightarrow> js" where
  "market_data_message d = JObj [(''type'', JStr ''market_data''), (''data'', d)]"

text \<open>
  \<^verbatim>\<open>clients.forEach\<close> of \<^verbatim>\<open>broadcastMarketData\<close> (lines 174-178): in insertion order,
  send to each client whose readyState is OPEN; an exception of a send ends the loop.
\<close>

fun forEach_send :: "js \<Rightarrow> nat list \<Rightarrow> (nat \<Rightarrow> ws) \<Rightarrow> outcome \<times> (nat \<Rightarrow> ws)" where
  "forEach_send m [] h = (Normal, h)"
| "forEach_send m (c # cs) h =
     (if readyState (h c) = OPEN then
        (case ws_send m (h c) of
           (Thrown e, sock) \<Rightarrow> (Thrown e, h(c := sock))
         | (Normal, sock) \<Rightarrow> forEach_send m cs (h(c := sock)))
      else forEach_send m cs h)"

definition broadcastMarketData :: "state \<Rightarrow> outcome \<times> state" where
  "broadcastMarketData s =
     (case forEach_send (market_data_message (marketData s)) (clients s) (sockets s) of
        (out, h) \<Rightarrow> (out, s\<lparr>sockets := h\<rparr>))"

subsection \<open>Upstream messages (lines 148-165)\<close>

text \<open>
  The handler of the dealer's \<^verbatim>\<open>message\<close> event; \<open>parsed\<close> is the outcome of
  \<^verbatim>\<open>JSON.parse(message.toString())\<close>. Its try/catch spans the whole body.
\<close>

definition dealer_on_message :: "js option \<Rightarrow> state \<Rightarrow> state" where
  "dealer_on_message parsed s =
     (case parsed of
        None \<Rightarrow> log_error ''Error processing MT4 message:'' SyntaxError s
      | Some data \<Rightarrow>
          (let s1 = log_info ''Received from MT4:'' [data] s in
           case get_prop data ''symbol'' of
             Inl e \<Rightarrow> log_error ''Error processing MT4 message:'' e s1
           | Inr symb \<Rightarrow>
               if truthy symb then
                 (case broadcastMarketData (s1\<lparr>marketData := data\<rparr>) of
                    (Thrown e, s2) \<Rightarrow> log_error ''Error processing MT4 message:'' e s2
                  | (Normal, s2) \<Rightarrow> s2)
               else s1))"

subsection \<open>The simulator (lines 182-219)\<close>

text \<open>
  What one run of the interval callback reads from its environment:
  the five \<^verbatim>\<open>Math.random()\<close> draws (doubles in [0, 1)) and the three
  \<^verbatim>\<open>new Date().toISOString()\<close> readings, in the order the callback takes them.
\<close>

record draws =
  rnd_movement :: rat
  now_time :: string
  rnd_balance :: rat
  rnd_equity :: rat
  rnd_margin :: rat
  rnd_positions :: rat
  now_zone1 :: string
  now_zone2 :: string

definition basePrice :: rat where
  "basePrice = fl 1.0750"

definition simulated :: "draws \<Rightarrow> js" where
  "simulated d =
     (let movement = fmul (fsub (rnd_movement d) 0.5) (fl 0.0020);
          bid = fadd basePrice movement;
          ask = fadd bid (fl 0.0002)
      in JObj [(''symbol'', JStr ''EURUSD''), (''bid'', JNum bid), (''ask'', JNum ask),
               (''time'', JStr (now_time d)),
               (''balance'', JNum (fadd 10000 (fmul (fsub (rnd_balance d) (fl 0.3)) 500))),
               (''equity'', JNum (fadd 10000 (fmul (fsub (rnd_equity d) (fl 0.3)) 500))),
               (''margin'', JNum (fmul (rnd_margin d) 200)),
               (''positions'', JNum (of_int \<lfloor>fmul (rnd_positions d) 2\<rfloor>)),
               (''zones'', JArr [
                  JObj [(''price'', JNum (fadd basePrice (fl 0.0050))), (''isSupply'', JBool True),
                        (''strength'', JNum (fl 0.85)), (''time'', JStr (now_zone1 d))],
                  JObj [(''price'', JNum (fsub basePrice (fl 0.0060))), (''isSupply'', JBool False),
                        (''strength'', JNum (fl 0.78)), (''time'', JStr (now_zone2 d))]])])"

text \<open>
  One run of the interval callback. It has no try/catch: an exception would leave it.
  \<^verbatim>\<open>marketData.bid === 0\<close> is strict, so only the number zero passes.
\<close>

definition tick :: "draws \<Rightarrow> state \<Rightarrow> outcome \<times> state" where
  "tick d s =
     (case get_prop (marketData s) ''bid'' of
        Inl e \<Rightarrow> (Thrown e, s)
      | Inr b \<Rightarrow>
          if b = JNum 0 then broadcastMarketData (s\<lparr>marketData := simulated d\<rparr>)
          else (Normal, s))"

subsection \<open>WebSocket clients (lines 53-91)\<close>

text \<open>\<^verbatim>\<open>Set.prototype.add\<close> and \<^verbatim>\<open>Set.prototype.delete\<close> on the insertion-ordered set.\<close>

definition set_add :: "nat \<Rightarrow> nat list \<Rightarrow> nat list" where
  "set_add w cs = (if w \<in> set cs then cs else cs @ [w])"

definition set_delete :: "nat \<Rightarrow> nat list \<Rightarrow> nat list" where
  "set_delete w cs = removeAll w cs"

text \<open>
  The WebSocket server completes the upgrade and hands the handler a new socket object,
  open and with nothing sent; \<open>w\<close> is its reference.
\<close>

definition accept :: "nat \<Rightarrow> state \<Rightarrow> state" where
  "accept w s = s\<lparr>sockets := (sockets s)(w := \<lparr>readyState = OPEN, sent = []\<rparr>)\<rparr>"

text \<open>The \<^verbatim>\<open>connection\<close> handler up to its send (lines 54-61); it has no try/catch.\<close>

definition on_connection :: "nat \<Rightarrow> state \<Rightarrow> outcome \<times> state" where
  "on_connection w s =
     (let s1 = log_info ''Client connected'' [] s;
          s2 = s1\<lparr>clients := set_add w (clients s1)\<rparr>
      in case ws_send (market_data_message (marketData s2)) (sockets s2 w) of
           (out, sock) \<Rightarrow> (out, s2\<lparr>sockets := (sockets s2)(w := sock)\<rparr>))"

text \<open>
  The socket's \<^verbatim>\<open>message\<close> handler (lines 64-84); \<open>parsed\<close> is the outcome of
  \<^verbatim>\<open>JSON.parse(message)\<close>. The \<^verbatim>\<open>switch\<close> compares with \<^verbatim>\<open>===\<close>. A property that is
  \<^verbatim>\<open>undefined\<close> stays in the object handed to \<^verbatim>\<open>JSON.stringify\<close>, which leaves it out
  of the text.
\<close>

definition ws_on_message :: "nat \<Rightarrow> js option \<Rightarrow> state \<Rightarrow> state" where
  "ws_on_message w parsed s =
     (case parsed of
        None \<Rightarrow> log_error ''Error processing message:'' SyntaxError s
      | Some msg \<Rightarrow>
          (let s1 = log_info ''Received:'' [msg] s in
           case get_prop msg ''type'' of
             Inl e \<Rightarrow> log_error ''Error processing message:'' e s1
           | Inr ty \<Rightarrow>
               if ty = JStr ''command'' then
                 (case get_prop msg ''command'' of
                    Inl e \<Rightarrow> log_error ''Error processing message:'' e s1
                  | Inr command \<Rightarrow>
                      (case get_prop msg ''params'' of
                         Inl e \<Rightarrow> log_error ''Error processing message:'' e s1
                       | Inr params \<Rightarrow> sendToMT4 command params s1))
               else if ty = JStr ''get_history'' then
                 (case sendTradeHistory w s1 of
                    (Thrown e, s2) \<Rightarrow> log_error ''Error processing message:'' e s2
                  | (Normal, s2) \<Rightarrow> s2)
               else s1))"

text \<open>The socket's \<^verbatim>\<open>close\<close> handler (lines 87-90).\<close>

definition ws_on_close :: "nat \<Rightarrow> state \<Rightarrow> state" where
  "ws_on_close w s =
     (let s1 = log_info ''Client disconnected'' [] s
      in s1\<lparr>clients := set_delete w (clients s1)\<rparr>)"

subsection \<open>HTTP routes (lines 226-239)\<close>

record response =
  status :: nat
  body :: js

definition get_market_data :: "state \<Rightarrow> response" where
  "get_market_data s = \<lparr>status = 200, body = marketData s\<rparr>"

definition command_required :: response where
  "command_required = \<lparr>status = 400, body = JObj [(''error'', JStr ''Command is required'')]\<rparr>"

definition command_sent :: response where
  "command_sent =
     \<lparr>status = 200, body = JObj [(''success'', JBool True), (''message'', JStr ''Command sent'')]\<rparr>"

text \<open>
  \<^verbatim>\<open>POST /api/command\<close>; \<open>req_body\<close> is \<^verbatim>\<open>req.body\<close> as the JSON body parser left it.
  An exception of the handler (\<open>Inl\<close>) goes to the framework's error handling.
\<close>

definition post_command :: "js \<Rightarrow> state \<Rightarrow> (error + response) \<times> state" where
  "post_command req_body s =
     (case get_prop req_body ''command'' of
        Inl e \<Rightarrow> (Inl e, s)
      | Inr command \<Rightarrow>
          (case get_prop req_body ''params'' of
             Inl e \<Rightarrow> (Inl e, s)
           | Inr params \<Rightarrow>
               if \<not> truthy command then (Inr command_required, s)
               else (Inr command_sent, sendToMT4 command params s)))"

subsection \<open>Shutdown and the event loop\<close>

text \<open>The SIGINT handler (lines 248-259) up to \<^verbatim>\<open>server.close\<close>.\<close>

definition on_sigint :: "state \<Rightarrow> state" where
  "on_sigint s =
     (let s1 = log_info ''Shutting down server'' [] s
      in s1\<lparr>dealer := map_option (\<lambda>d. d\<lparr>closed := True\<rparr>) (dealer s1)\<rparr>)"

text \<open>
  What the event loop can deliver. \<open>WsReadyState\<close> is the library moving a socket to
  another readyState (no handler of the program runs); \<open>WsClose\<close> is the socket's
  \<^verbatim>\<open>close\<close> event, emitted with the socket CLOSED. The dealer's \<^verbatim>\<open>message\<close> handler is
  registered only when the dealer exists (line 148). \<open>Listening\<close> is the callback of
  \<^verbatim>\<open>server.listen\<close> (lines 242-245), which logs the port and starts the simulator's
  timer; \<open>Tick\<close> is one run of that timer's callback. An exception of a route handler is
  caught by the framework, which answers the request with an error.
\<close>

datatype event =
    Connection nat
  | WsMessage nat "js option"
  | WsReadyState nat ready_state
  | WsClose nat
  | MT4Message "js option"
  | Tick draws
  | GetMarketData
  | PostCommand js
  | Sigint
  | Listening string

fun step :: "event \<Rightarrow> state \<Rightarrow> outcome \<times> state" where
  "step (Connection w) s = on_connection w (accept w s)"
| "step (WsMessage w parsed) s = (Normal, ws_on_message w parsed s)"
| "step (WsReadyState w r) s =
     (Normal, s\<lparr>sockets := (sockets s)(w := (sockets s w)\<lparr>readyState := r\<rparr>)\<rparr>)"
| "step (WsClose w) s =
     (Normal, ws_on_close w (s\<lparr>sockets := (sockets s)(w := (sockets s w)\<lparr>readyState := CLOSED\<rparr>)\<rparr>))"
| "step (MT4Message parsed) s =
     (if dealer s = None then (Normal, s) else (Normal, dealer_on_message parsed s))"
| "step (Tick d) s = tick d s"
| "step GetMarketData s = (Normal, s)"
| "step (PostCommand req_body) s = (Normal, snd (post_command req_body s))"
| "step Sigint s = (Normal, on_sigint s)"
| "step (Listening port) s = (Normal, log_info (''Server running on port '' @ port) [] s)"

text \<open>A run of the event loop; an exception that leaves a handler ends the process.\<close>

fun run :: "event list \<Rightarrow> state \<Rightarrow> outcome \<times> state" where
  "run [] s = (Normal, s)"
| "run (e # es) s =
     (case step e s of
        (Thrown x, s') \<Rightarrow> (Thrown x, s')
      | (Normal, s') \<Rightarrow> run es s')"

subsection \<open>Vocabulary of the properties\<close>

text \<open>
  An upstream document the handler takes for a snapshot update: reading its \<open>symbol\<close>
  does not throw and gives a truthy value.
\<close>

definition snapshot_update :: "js \<Rightarrow> bool" where
  "snapshot_update d = (case get_prop d ''symbol'' of Inl e \<Rightarrow> False | Inr v \<Rightarrow> truthy v)"

text \<open>An inbound upstream frame that parses to a snapshot update.\<close>

definition accepted :: "js option \<Rightarrow> bool" where
  "accepted parsed = (case parsed of None \<Rightarrow> False | Some d \<Rightarrow> snapshot_update d)"

text \<open>The upstream handler run on a sequence of documents, one after the other.\<close>

definition apply_updates :: "js list \<Rightarrow> state \<Rightarrow> state" where
  "apply_updates ds s = foldl (\<lambda>s d. dealer_on_message (Some d) s) s ds"

text \<open>The spec's wording "a structured record containing a symbol field".\<close>

definition has_field :: "string \<Rightarrow> js \<Rightarrow> bool" where
  "has_field k d = (case d of JObj kvs \<Rightarrow> map_of kvs k \<noteq> None | _ \<Rightarrow> False)"

text \<open>The spec's wording "a structured document of shape {success: bool, message: string}".\<close>

definition success_message_shape :: "js \<Rightarrow> bool" where
  "success_message_shape d =
     (case (get_prop d ''success'', get_prop d ''message'') of
        (Inr (JBool b), Inr (JStr m)) \<Rightarrow> True
      | _ \<Rightarrow> False)"

text \<open>
  The spec's wording "returns an error to the caller", read on an HTTP answer: the handler
  threw, or the status is an error status, or the document says \<^verbatim>\<open>success: false\<close>.
\<close>

definition failure_response :: "error + response \<Rightarrow> bool" where
  "failure_response r =
     (case r of
        Inl e \<Rightarrow> True
      | Inr res \<Rightarrow> 400 \<le> status res \<or> get_prop (body res) ''success'' = Inr (JBool False))"

text \<open>The upstream link is down: the dealer socket is absent, or its send throws.\<close>

definition link_down :: "state \<Rightarrow> bool" where
  "link_down s = (case dealer s of None \<Rightarrow> True | Some d \<Rightarrow> closed d)"

text \<open>The dealer exists and its \<^verbatim>\<open>connect\<close> call returned.\<close>

definition link_up :: "state \<Rightarrow> bool" where
  "link_up s = (case dealer s of None \<Rightarrow> False | Some d \<Rightarrow> connected d)"

text \<open>
  Every connection attempt of the program ends in one of the two console entries of
  lines 32 and 34, so the attempts made are the entries of these two kinds.
\<close>

definition is_connect_entry :: "log_entry \<Rightarrow> bool" where
  "is_connect_entry e =
     (case e of
        Log label args \<Rightarrow> label = ''Connected to MT4 at 127.0.0.1:5555''
      | LogError label x \<Rightarrow> label = ''Failed to connect to MetaTrader:'')"

definition connect_attempts :: "state \<Rightarrow> nat" where
  "connect_attempts s = length (filter is_connect_entry (console s))"

text \<open>What no handler changes: whether the link is connected, and the attempts made.\<close>

definition same_link :: "state \<Rightarrow> state \<Rightarrow> bool" where
  "same_link s s' \<longleftrightarrow>
     link_up s' = link_up s \<and> connect_attempts s' = connect_attempts s"

subsection \<open>Sample data\<close>

definition sample_now :: string where
  "sample_now = ''2025-04-16T10:00:00.000Z''"

definition quote1 :: js where
  "quote1 = JObj [(''symbol'', JStr ''EURUSD''), (''bid'', JNum 1.0750), (''ask'', JNum 1.0752)]"

definition quote2 :: js where
  "quote2 = JObj [(''symbol'', JStr ''GBPUSD''), (''bid'', JNum 1.2500), (''ask'', JNum 1.2503)]"

definition empty_symbol_doc :: js where
  "empty_symbol_doc =
     JObj [(''symbol'', JStr ''''), (''bid'', JNum 1.0750), (''ask'', JNum 1.0752)]"

definition buy_request :: js where
  "buy_request = JObj [(''command'', JStr ''BUY''), (''params'', JObj [(''lots'', JNum 0.1)])]"

definition empty_command_request :: js where
  "empty_command_request = JObj [(''command'', JStr ''''), (''params'', JObj [])]"

definition buy_message :: js where
  "buy_message = JObj [(''type'', JStr ''command''), (''command'', JStr ''BUY'')]"

definition sample_draws :: draws where
  "sample_draws =
     \<lparr>rnd_movement = 0.25, now_time = ''2025-04-16T10:00:02.000Z'', rnd_balance = 0.5,
      rnd_equity = 0.5, rnd_margin = 0.5, rnd_positions = 0.75,
      now_zone1 = ''2025-04-16T10:00:02.000Z'', now_zone2 = ''2025-04-16T10:00:02.001Z''\<rparr>"

text \<open>A live quote whose bid is 0, and a run in which it arrives after a non-zero one.\<close>

definition zero_bid_quote :: js where
  "zero_bid_quote = JObj [(''symbol'', JStr ''GBPUSD''), (''bid'', JNum 0), (''ask'', JNum 0)]"

definition live_then_zero_bid :: "event list" where
  "live_then_zero_bid =
     [MT4Message (Some quote1), Tick sample_draws, MT4Message (Some zero_bid_quote)]"

text \<open>Creating the dealer socket failed at start-up.\<close>

definition no_dealer :: state where
  "no_dealer = startup SocketThrows sample_now"

text \<open>The dealer was closed by the shutdown handler while a client is still connected.\<close>

definition dealer_closed :: state where
  "dealer_closed = snd (run [Connection 3, Sigint] (startup Connects sample_now))"

text \<open>Three clients have connected and the second one is closing.\<close>

definition three_clients :: state where
  "three_clients =
     snd (run [Connection 3, Connection 4, Connection 5, WsReadyState 4 CLOSING]
            (startup Connects sample_now))"

section \<open>Properties\<close>

subsection \<open>The broadcast loop\<close>

lemma forEach_send_normal: "fst (forEach_send m cs h) = Normal"
  by (induction cs arbitrary: h) (simp_all add: ws_send_def)

lemma forEach_send_other: "w \<notin> set cs \<Longrightarrow> snd (forEach_send m cs h) w = h w"
  by (induction cs arbitrary: h) (simp_all add: ws_send_def)

lemma forEach_send_member:
  "distinct cs \<Longrightarrow> w \<in> set cs \<Longrightarrow>
   snd (forEach_send m cs h) w =
     (if readyState (h w) = OPEN then (h w)\<lparr>sent := sent (h w) @ [m]\<rparr> else h w)"
proof (induction cs arbitrary: h)
  case Nil
  then show ?case by simp
next
  case (Cons c cs)
  show ?case
  proof (cases "w = c")
    case True
    with Cons.prems have "w \<notin> set cs" by simp
    then show ?thesis using True
      by (simp add: ws_send_def forEach_send_other)
  next
    case False
    with Cons.prems have "w \<in> set cs" "distinct cs" by simp_all
    then show ?thesis using False Cons.IH
      by (simp add: ws_send_def)
  qed
qed

lemma broadcastMarketData_eq:
  "broadcastMarketData s =
     (Normal, s\<lparr>sockets :=
        snd (forEach_send (market_data_message (marketData s)) (clients s) (sockets s))\<rparr>)"
  using forEach_send_normal [of "market_data_message (marketData s)" "clients s" "sockets s"]
  by (cases "forEach_send (market_data_message (marketData s)) (clients s) (sockets s)")
     (simp add: broadcastMarketData_def)

subsection \<open>The upstream handler\<close>

lemma dealer_on_message_accept:
  assumes "snapshot_update d"
  shows "dealer_on_message (Some d) s =
           s\<lparr>marketData := d,
             sockets := snd (forEach_send (market_data_message d) (clients s) (sockets s)),
             console := console s @ [Log ''Received from MT4:'' [d]]\<rparr>"
proof -
  obtain v where v: "get_prop d ''symbol'' = Inr v" "truthy v"
    using assms by (auto simp: snapshot_update_def split: sum.splits)
  then show ?thesis
    by (simp add: dealer_on_message_def Let_def broadcastMarketData_eq log_info_def)
qed

lemma apply_updates_marketData:
  "\<forall>d\<in>set ds. snapshot_update d \<Longrightarrow>
   marketData (apply_updates ds s) = last (marketData s # ds)"
proof (induction ds arbitrary: s)
  case Nil
  then show ?case by (simp add: apply_updates_def)
next
  case (Cons d ds)
  have "marketData (apply_updates ds (dealer_on_message (Some d) s)) =
        last (marketData (dealer_on_message (Some d) s) # ds)"
    using Cons by simp
  then show ?case using Cons.prems
    by (simp add: apply_updates_def dealer_on_message_accept)
qed

text \<open>
  C1. After any sequence of snapshot updates handled by the upstream handler, the stored
  snapshot is the last update of the sequence (the snapshot before, when the sequence
  is empty): the last writer wins and nothing is merged. \<^verbatim>\<open>GET /api/market-data\<close> answers
  with status 200 and exactly that snapshot.
\<close>

theorem last_writer_wins:
  assumes "\<forall>d\<in>set ds. snapshot_update d"
  shows "marketData (apply_updates ds s) = last (marketData s # ds) \<and>
         get_market_data (apply_updates ds s) =
           \<lparr>status = 200, body = last (marketData s # ds)\<rparr>"
  using apply_updates_marketData [OF assms] by (simp add: get_market_data_def)

theorem last_writer_wins_witness:
  "snapshot_update quote1 \<and> snapshot_update quote2 \<and>
   marketData (apply_updates [quote1, quote2, quote1] (startup Connects sample_now)) = quote1 \<and>
   get_market_data (apply_updates [quote1, quote2, quote1] (startup Connects sample_now)) =
     \<lparr>status = 200, body = quote1\<rparr>"
  using last_writer_wins [of "[quote1, quote2, quote1]" "startup Connects sample_now"]
  by (simp add: snapshot_update_def quote1_def quote2_def)

subsection \<open>The sample state\<close>

lemma three_clients_fields:
  "clients three_clients = [3, 4, 5]"
  "marketData three_clients = initial_marketData sample_now"
  "readyState (sockets three_clients 3) = OPEN"
  "readyState (sockets three_clients 4) = CLOSING"
  "readyState (sockets three_clients 5) = OPEN"
  "sent (sockets three_clients 3) = [market_data_message (initial_marketData sample_now)]"
  "sent (sockets three_clients 4) = [market_data_message (initial_marketData sample_now)]"
  "sent (sockets three_clients 5) = [market_data_message (initial_marketData sample_now)]"
  by (simp_all add: three_clients_def startup_def accept_def on_connection_def Let_def
      log_info_def set_add_def ws_send_def)

lemma dealer_on_message_reject:
  assumes "\<not> accepted parsed"
  shows "\<exists>es. es \<noteq> [] \<and> dealer_on_message parsed s = s\<lparr>console := console s @ es\<rparr>"
proof (cases parsed)
  case None
  then have "dealer_on_message parsed s =
      s\<lparr>console := console s @ [LogError ''Error processing MT4 message:'' SyntaxError]\<rparr>"
    by (simp add: dealer_on_message_def log_error_def)
  then show ?thesis by blast
next
  case (Some d)
  show ?thesis
  proof (cases "get_prop d ''symbol''")
    case (Inl e)
    then have "dealer_on_message parsed s =
        s\<lparr>console := console s @ [Log ''Received from MT4:'' [d], LogError ''Error processing MT4 message:'' e]\<rparr>"
      using Some by (simp add: dealer_on_message_def Let_def log_error_def log_info_def)
    then show ?thesis by blast
  next
    case (Inr v)
    then have "\<not> truthy v" using assms Some by (simp add: accepted_def snapshot_update_def)
    then have "dealer_on_message parsed s = s\<lparr>console := console s @ [Log ''Received from MT4:'' [d]]\<rparr>"
      using Some Inr by (simp add: dealer_on_message_def Let_def log_info_def)
    then show ?thesis by blast
  qed
qed

text \<open>
  C3 (amended). An inbound upstream message replaces the stored snapshot and runs the
  broadcast exactly when it parses and the \<open>symbol\<close> of the parsed value is truthy (then
  the snapshot is the parsed document and the sockets are as the broadcast of it leaves
  them). Every other message (malformed, \<^verbatim>\<open>null\<close>, or with \<open>symbol\<close> missing or falsy)
  only adds console entries: snapshot and sockets stay as they were. The handler returns
  a state in every case (its try/catch lets no exception out) and never touches the
  client set or the dealer.
\<close>

theorem upstream_applied_iff_truthy_symbol:
  "(accepted parsed \<longrightarrow>
      (\<exists>d. parsed = Some d \<and> marketData (dealer_on_message parsed s) = d \<and>
           sockets (dealer_on_message parsed s) =
             sockets (snd (broadcastMarketData (s\<lparr>marketData := d\<rparr>))))) \<and>
   (\<not> accepted parsed \<longrightarrow>
      marketData (dealer_on_message parsed s) = marketData s \<and>
      sockets (dealer_on_message parsed s) = sockets s \<and>
      (\<exists>es. es \<noteq> [] \<and> console (dealer_on_message parsed s) = console s @ es)) \<and>
   clients (dealer_on_message parsed s) = clients s \<and>
   dealer (dealer_on_message parsed s) = dealer s"
proof (cases "accepted parsed")
  case True
  then obtain d where d: "parsed = Some d" "snapshot_update d"
    by (auto simp: accepted_def split: option.splits)
  show ?thesis using True d
    by (simp add: dealer_on_message_accept broadcastMarketData_eq)
next
  case False
  from dealer_on_message_reject [OF False, of s]
  obtain es where "es \<noteq> []" "dealer_on_message parsed s = s\<lparr>console := console s @ es\<rparr>"
    by blast
  then show ?thesis using False by simp
qed

theorem upstream_applied_iff_truthy_symbol_witness:
  "accepted (Some quote1) \<and>
   marketData (dealer_on_message (Some quote1) three_clients) = quote1 \<and>
   sent (sockets (dealer_on_message (Some quote1) three_clients) 3) =
     [market_data_message (initial_marketData sample_now), market_data_message quote1] \<and>
   \<not> accepted None \<and>
   marketData (dealer_on_message None three_clients) = initial_marketData sample_now \<and>
   sockets (dealer_on_message None three_clients) = sockets three_clients \<and>
   console (dealer_on_message None three_clients) \<noteq> console three_clients"
  using upstream_applied_iff_truthy_symbol [of "Some quote1" three_clients]
    upstream_applied_iff_truthy_symbol [of None three_clients]
  by (auto simp add: accepted_def snapshot_update_def quote1_def broadcastMarketData_eq
      three_clients_fields ws_send_def market_data_message_def)

text \<open>
  C3 as stated fails: a record that contains a symbol field, the empty string, is not
  applied and triggers no broadcast.
\<close>

theorem empty_symbol_not_applied:
  "has_field ''symbol'' empty_symbol_doc \<and>
   marketData (dealer_on_message (Some empty_symbol_doc) (startup Connects sample_now)) \<noteq>
     empty_symbol_doc \<and>
   sockets (dealer_on_message (Some empty_symbol_doc) three_clients) = sockets three_clients"
  by (simp add: has_field_def empty_symbol_doc_def dealer_on_message_def Let_def log_info_def
      startup_def initial_marketData_def)

text \<open>
  C4. A broadcast does not throw, and it appends the message
  \<^verbatim>\<open>{type: "market_data", data: marketData}\<close> to every registered client whose readyState
  is OPEN, once; every other socket (closed, closing, or not registered) is left as it
  was, and its state has no influence on the delivery to the others. The client set
  holds each reference once.
\<close>

theorem broadcast_reaches_every_open_client:
  assumes "distinct (clients s)"
  shows "fst (broadcastMarketData s) = Normal \<and>
         (\<forall>w. sockets (snd (broadcastMarketData s)) w =
            (if w \<in> set (clients s) \<and> readyState (sockets s w) = OPEN
             then (sockets s w)\<lparr>sent := sent (sockets s w) @
                    [JObj [(''type'', JStr ''market_data''), (''data'', marketData s)]]\<rparr>
             else sockets s w))"
proof -
  let ?m = "JObj [(''type'', JStr ''market_data''), (''data'', marketData s)]"
  have "snd (forEach_send ?m (clients s) (sockets s)) w =
          (if w \<in> set (clients s) \<and> readyState (sockets s w) = OPEN
           then (sockets s w)\<lparr>sent := sent (sockets s w) @ [?m]\<rparr> else sockets s w)" for w
  proof (cases "w \<in> set (clients s)")
    case True
    then show ?thesis using assms by (simp add: forEach_send_member)
  next
    case False
    then show ?thesis by (simp add: forEach_send_other)
  qed
  then show ?thesis
    by (simp add: broadcastMarketData_eq market_data_message_def)
qed

theorem broadcast_reaches_every_open_client_witness:
  "distinct (clients three_clients) \<and>
   readyState (sockets three_clients 4) = CLOSING \<and>
   fst (broadcastMarketData (three_clients\<lparr>marketData := quote1\<rparr>)) = Normal \<and>
   sent (sockets (snd (broadcastMarketData (three_clients\<lparr>marketData := quote1\<rparr>))) 3) =
     [market_data_message (initial_marketData sample_now), market_data_message quote1] \<and>
   sent (sockets (snd (broadcastMarketData (three_clients\<lparr>marketData := quote1\<rparr>))) 4) =
     [market_data_message (initial_marketData sample_now)] \<and>
   sent (sockets (snd (broadcastMarketData (three_clients\<lparr>marketData := quote1\<rparr>))) 5) =
     [market_data_message (initial_marketData sample_now), market_data_message quote1]"
  using broadcast_reaches_every_open_client [of "three_clients\<lparr>marketData := quote1\<rparr>"]
  by (simp add: three_clients_fields market_data_message_def)

text \<open>
  C5. When a client connects, the handler does not throw, the socket is registered in the
  client set, and the one frame sent on it is \<^verbatim>\<open>{type: "market_data", data: marketData}\<close>
  with the snapshot current at that moment. Before any update that snapshot is the
  initial one: symbol EURUSD, bid 0, ask 0, the start-up time, balance 10000, equity
  10000, margin 0 and no zones.
\<close>

theorem connection_receives_current_snapshot:
  "fst (step (Connection w) s) = Normal \<and>
   w \<in> set (clients (snd (step (Connection w) s))) \<and>
   sockets (snd (step (Connection w) s)) w =
     \<lparr>readyState = OPEN,
      sent = [JObj [(''type'', JStr ''market_data''), (''data'', marketData s)]]\<rparr> \<and>
   marketData (snd (step (Connection w) s)) = marketData s \<and>
   marketData (startup z now) =
     JObj [(''symbol'', JStr ''EURUSD''), (''bid'', JNum 0), (''ask'', JNum 0),
           (''time'', JStr now), (''balance'', JNum 10000), (''equity'', JNum 10000),
           (''margin'', JNum 0), (''zones'', JArr [])]"
  by (simp add: on_connection_def accept_def Let_def log_info_def set_add_def ws_send_def
      market_data_message_def startup_def initial_marketData_def)

theorem connection_receives_current_snapshot_witness:
  "clients (snd (step (Connection 3) no_dealer)) = [3] \<and>
   sockets (snd (step (Connection 3) no_dealer)) 3 =
     \<lparr>readyState = OPEN,
      sent = [JObj [(''type'', JStr ''market_data''),
                    (''data'', JObj [(''symbol'', JStr ''EURUSD''), (''bid'', JNum 0),
                       (''ask'', JNum 0), (''time'', JStr sample_now),
                       (''balance'', JNum 10000), (''equity'', JNum 10000),
                       (''margin'', JNum 0), (''zones'', JArr [])])]]\<rparr>"
  using connection_receives_current_snapshot [of 3 no_dealer SocketThrows sample_now]
  by (simp add: no_dealer_def on_connection_def accept_def Let_def log_info_def set_add_def
      ws_send_def startup_def market_data_message_def initial_marketData_def)

subsection \<open>Commands\<close>

lemma dealer_update_same: "dealer s = x \<Longrightarrow> s\<lparr>dealer := x\<rparr> = s"
  by (cases s) simp

lemma get_prop_total:
  "get_prop v k = Inr x \<Longrightarrow> \<exists>y. get_prop v k' = Inr y"
  by (cases v) (auto split: option.splits)

lemma sendToMT4_down:
  assumes "link_down s"
  shows "dealer (sendToMT4 c p s) = dealer s"
    and "sockets (sendToMT4 c p s) = sockets s"
    and "marketData (sendToMT4 c p s) = marketData s"
    and "clients (sendToMT4 c p s) = clients s"
  using assms
  by (auto simp: link_down_def sendToMT4_def dealer_send_def log_error_def Let_def
      split: option.splits)

lemma post_command_truthy:
  assumes "get_prop req_body ''command'' = Inr c" "truthy c"
  shows "\<exists>p. get_prop req_body ''params'' = Inr p \<and>
             post_command req_body s = (Inr command_sent, sendToMT4 c p s)"
proof -
  obtain p where "get_prop req_body ''params'' = Inr p"
    using get_prop_total [OF assms(1)] by blast
  then show ?thesis using assms by (simp add: post_command_def)
qed

lemma post_command_falsy:
  assumes "get_prop req_body ''command'' = Inr c" "\<not> truthy c"
  shows "post_command req_body s = (Inr command_required, s)"
proof -
  obtain p where "get_prop req_body ''params'' = Inr p"
    using get_prop_total [OF assms(1)] by blast
  then show ?thesis using assms by (simp add: post_command_def)
qed

text \<open>
  C9. Whenever the body of a \<^verbatim>\<open>POST /api/command\<close> request has a truthy \<open>command\<close> (every
  non-empty string is), the answer is status 200 with
  \<^verbatim>\<open>{success: true, message: 'Command sent'}\<close>, in every state: with the dealer absent
  \<^verbatim>\<open>sendToMT4\<close> returns without doing anything, and when the dealer's send throws it
  catches the error and only writes it to the console.
\<close>

theorem post_command_reports_sent_regardless:
  assumes "get_prop req_body ''command'' = Inr c" and "truthy c"
  shows "fst (post_command req_body s) =
           Inr \<lparr>status = 200,
                body = JObj [(''success'', JBool True), (''message'', JStr ''Command sent'')]\<rparr> \<and>
         (dealer s = None \<longrightarrow> sendToMT4 c p s = s) \<and>
         (\<forall>d. dealer s = Some d \<and> closed d \<longrightarrow>
              sendToMT4 c p s = log_error ''Error sending to MT4:'' SocketClosed s)"
proof -
  have "fst (post_command req_body s) = Inr command_sent"
    using post_command_truthy [OF assms, of s] by auto
  then show ?thesis
    by (auto simp: command_sent_def sendToMT4_def dealer_send_def Let_def dealer_update_same)
qed

theorem post_command_reports_sent_regardless_witness:
  "get_prop buy_request ''command'' = Inr (JStr ''BUY'') \<and> truthy (JStr ''BUY'') \<and>
   dealer no_dealer = None \<and>
   fst (post_command buy_request no_dealer) =
     Inr \<lparr>status = 200,
          body = JObj [(''success'', JBool True), (''message'', JStr ''Command sent'')]\<rparr> \<and>
   sendToMT4 (JStr ''BUY'') JUndefined no_dealer = no_dealer \<and>
   fst (post_command buy_request dealer_closed) =
     Inr \<lparr>status = 200,
          body = JObj [(''success'', JBool True), (''message'', JStr ''Command sent'')]\<rparr>"
  using post_command_reports_sent_regardless [of buy_request "JStr ''BUY''" no_dealer JUndefined]
    post_command_reports_sent_regardless [of buy_request "JStr ''BUY''" dealer_closed JUndefined]
  by (simp add: buy_request_def no_dealer_def startup_def)

text \<open>
  C2 (amended). While the upstream link is down (dealer absent, or its send throwing), a
  command submission returns at once but reports no error: \<^verbatim>\<open>POST /api/command\<close> with a
  truthy command still answers 200 \<^verbatim>\<open>{success: true, message: 'Command sent'}\<close>, a
  WebSocket \<^verbatim>\<open>command\<close> message gets no frame back, and in both cases nothing is handed
  to the dealer: the command is dropped.
\<close>

theorem command_while_disconnected_not_reported:
  assumes "link_down s"
  shows "(\<forall>c. get_prop req_body ''command'' = Inr c \<and> truthy c \<longrightarrow>
            fst (post_command req_body s) =
              Inr \<lparr>status = 200,
                   body = JObj [(''success'', JBool True), (''message'', JStr ''Command sent'')]\<rparr> \<and>
            dealer (snd (post_command req_body s)) = dealer s \<and>
            sockets (snd (post_command req_body s)) = sockets s) \<and>
         (get_prop msg ''type'' = Inr (JStr ''command'') \<longrightarrow>
            dealer (ws_on_message w (Some msg) s) = dealer s \<and>
            sockets (ws_on_message w (Some msg) s) = sockets s)"
proof -
  have a: "fst (post_command req_body s) = Inr command_sent \<and>
        dealer (snd (post_command req_body s)) = dealer s \<and>
        sockets (snd (post_command req_body s)) = sockets s"
    if "get_prop req_body ''command'' = Inr c" "truthy c" for c
    using post_command_truthy [OF that, of s] sendToMT4_down [OF assms] by auto
  have b: "dealer (ws_on_message w (Some msg) s) = dealer s \<and>
        sockets (ws_on_message w (Some msg) s) = sockets s"
    if ty: "get_prop msg ''type'' = Inr (JStr ''command'')"
  proof -
    let ?s1 = "log_info ''Received:'' [msg] s"
    have down: "link_down ?s1" using assms by (simp add: link_down_def log_info_def)
    obtain c where c: "get_prop msg ''command'' = Inr c" using get_prop_total [OF ty] by blast
    obtain p where p: "get_prop msg ''params'' = Inr p" using get_prop_total [OF ty] by blast
    have "ws_on_message w (Some msg) s = sendToMT4 c p ?s1"
      using ty c p by (simp add: ws_on_message_def Let_def)
    then show ?thesis using sendToMT4_down [OF down, of c p] by (simp add: log_info_def)
  qed
  show ?thesis using a b by (simp add: command_sent_def)
qed

theorem command_while_disconnected_not_reported_witness:
  "link_down dealer_closed \<and>
   get_prop buy_request ''command'' = Inr (JStr ''BUY'') \<and> truthy (JStr ''BUY'') \<and>
   fst (post_command buy_request dealer_closed) =
     Inr \<lparr>status = 200,
          body = JObj [(''success'', JBool True), (''message'', JStr ''Command sent'')]\<rparr> \<and>
   dealer (snd (post_command buy_request dealer_closed)) = dealer dealer_closed \<and>
   get_prop buy_message ''type'' = Inr (JStr ''command'') \<and>
   sockets (ws_on_message 3 (Some buy_message) dealer_closed) = sockets dealer_closed"
proof -
  have down: "link_down dealer_closed"
    by (simp add: link_down_def dealer_closed_def startup_def on_sigint_def Let_def
        log_info_def on_connection_def accept_def ws_send_def set_add_def)
  show ?thesis
    using down command_while_disconnected_not_reported [OF down, of buy_request buy_message 3]
    by (simp add: buy_request_def buy_message_def)
qed

text \<open>
  C2 as stated fails: with the dealer absent, a command is answered with success, not
  with an error, and the state is as before.
\<close>

theorem disconnected_command_answered_with_success:
  "link_down no_dealer \<and>
   fst (post_command buy_request no_dealer) =
     Inr \<lparr>status = 200,
          body = JObj [(''success'', JBool True), (''message'', JStr ''Command sent'')]\<rparr> \<and>
   \<not> failure_response (fst (post_command buy_request no_dealer)) \<and>
   snd (post_command buy_request no_dealer) = no_dealer"
  by (simp add: link_down_def no_dealer_def startup_def buy_request_def post_command_def
      command_sent_def sendToMT4_def failure_response_def)

text \<open>
  C6 (amended). For a \<^verbatim>\<open>POST /api/command\<close> request whose \<^verbatim>\<open>req.body\<close> is neither
  \<^verbatim>\<open>undefined\<close> nor \<^verbatim>\<open>null\<close>: when the \<open>command\<close> field is missing or falsy (the empty
  string, 0, false, null) the answer is status 400 with \<^verbatim>\<open>{error: 'Command is required'}\<close>
  and the state is unchanged; otherwise the answer is status 200 with
  \<^verbatim>\<open>{success: true, message: 'Command sent'}\<close>. When \<^verbatim>\<open>req.body\<close> is \<^verbatim>\<open>undefined\<close> or
  \<^verbatim>\<open>null\<close>, the destructuring of line 231 throws a TypeError: the handler writes no
  answer and the state is unchanged.
\<close>

theorem post_command_response:
  "(req_body = JUndefined \<or> req_body = JNull \<longrightarrow>
      post_command req_body s = (Inl TypeError, s)) \<and>
   (req_body \<noteq> JUndefined \<and> req_body \<noteq> JNull \<longrightarrow>
      (\<exists>c. get_prop req_body ''command'' = Inr c \<and>
           (\<not> has_field ''command'' req_body \<longrightarrow> \<not> truthy c) \<and>
           (\<not> truthy c \<longrightarrow>
              post_command req_body s =
                (Inr \<lparr>status = 400, body = JObj [(''error'', JStr ''Command is required'')]\<rparr>,
                 s)) \<and>
           (truthy c \<longrightarrow>
              fst (post_command req_body s) =
                Inr \<lparr>status = 200,
                     body = JObj [(''success'', JBool True),
                                  (''message'', JStr ''Command sent'')]\<rparr>)))"
proof -
  have null: "post_command req_body s = (Inl TypeError, s)"
    if "req_body = JUndefined \<or> req_body = JNull"
    using that by (auto simp: post_command_def)
  have obj: "\<exists>c. get_prop req_body ''command'' = Inr c \<and>
           (\<not> has_field ''command'' req_body \<longrightarrow> \<not> truthy c) \<and>
           (\<not> truthy c \<longrightarrow> post_command req_body s = (Inr command_required, s)) \<and>
           (truthy c \<longrightarrow> fst (post_command req_body s) = Inr command_sent)"
    if nn: "req_body \<noteq> JUndefined \<and> req_body \<noteq> JNull"
  proof -
    have "\<exists>c. get_prop req_body ''command'' = Inr c"
      using nn by (cases req_body) (auto split: option.splits)
    then obtain c where c: "get_prop req_body ''command'' = Inr c" by blast
    have "\<not> has_field ''command'' req_body \<longrightarrow> c = JUndefined"
      using c by (cases req_body) (auto simp: has_field_def split: option.splits)
    moreover have "truthy c \<longrightarrow> fst (post_command req_body s) = Inr command_sent"
      using post_command_truthy [OF c, of s] by auto
    moreover have "\<not> truthy c \<longrightarrow> post_command req_body s = (Inr command_required, s)"
      using post_command_falsy [OF c, of s] by auto
    ultimately show ?thesis using c by auto
  qed
  show ?thesis using null obj by (simp add: command_sent_def command_required_def)
qed

theorem post_command_response_witness:
  "post_command JNull no_dealer = (Inl TypeError, no_dealer) \<and>
   \<not> has_field ''command'' (JObj [(''params'', JObj [])]) \<and>
   post_command (JObj [(''params'', JObj [])]) no_dealer =
     (Inr \<lparr>status = 400, body = JObj [(''error'', JStr ''Command is required'')]\<rparr>, no_dealer) \<and>
   post_command empty_command_request no_dealer =
     (Inr \<lparr>status = 400, body = JObj [(''error'', JStr ''Command is required'')]\<rparr>, no_dealer) \<and>
   fst (post_command buy_request no_dealer) =
     Inr \<lparr>status = 200,
          body = JObj [(''success'', JBool True), (''message'', JStr ''Command sent'')]\<rparr>"
  using post_command_response [of JNull no_dealer]
    post_command_response [of "JObj [(''params'', JObj [])]" no_dealer]
    post_command_response [of empty_command_request no_dealer]
    post_command_response [of buy_request no_dealer]
  by (simp add: has_field_def buy_request_def empty_command_request_def)

text \<open>
  C6 as stated fails: a body whose command field is present and empty gets the error
  answer, which is not of the shape {success, message}.
\<close>

theorem empty_command_gets_error_shape:
  "has_field ''command'' empty_command_request \<and>
   fst (post_command empty_command_request no_dealer) =
     Inr \<lparr>status = 400, body = JObj [(''error'', JStr ''Command is required'')]\<rparr> \<and>
   \<not> success_message_shape (JObj [(''error'', JStr ''Command is required'')])"
  by (simp add: has_field_def empty_command_request_def post_command_def command_required_def
      success_message_shape_def)



subsection \<open>The upstream link after start-up\<close>

lemma same_link_refl: "same_link s s"
  by (simp add: same_link_def)

lemma same_link_trans: "same_link s s' \<Longrightarrow> same_link s' s'' \<Longrightarrow> same_link s s''"
  by (simp add: same_link_def)

lemma same_link_log_info:
  "label \<noteq> ''Connected to MT4 at 127.0.0.1:5555'' \<Longrightarrow> same_link s (log_info label args s)"
  by (simp add: same_link_def link_up_def connect_attempts_def log_info_def is_connect_entry_def)

lemma same_link_log_error:
  "label \<noteq> ''Failed to connect to MetaTrader:'' \<Longrightarrow> same_link s (log_error label e s)"
  by (simp add: same_link_def link_up_def connect_attempts_def log_error_def is_connect_entry_def)

lemma same_link_sendToMT4: "same_link s (sendToMT4 c p s)"
  by (auto simp: same_link_def link_up_def connect_attempts_def sendToMT4_def dealer_send_def
      log_info_def log_error_def is_connect_entry_def Let_def split: option.splits)

lemma same_link_broadcast: "same_link s (snd (broadcastMarketData s))"
  by (simp add: broadcastMarketData_eq same_link_def link_up_def connect_attempts_def)

lemma same_link_dealer_on_message: "same_link s (dealer_on_message parsed s)"
  by (auto simp: dealer_on_message_def broadcastMarketData_eq same_link_def link_up_def
      connect_attempts_def log_info_def log_error_def is_connect_entry_def Let_def
      split: option.splits sum.splits)

lemma same_link_ws_on_message: "same_link s (ws_on_message w parsed s)"
proof -
  have a: "same_link s (log_info ''Received:'' [m] s)" for m
    by (rule same_link_log_info) simp
  have b: "same_link s (log_error ''Error processing message:'' e (log_info ''Received:'' [m] s))"
    for m e
    by (rule same_link_trans [OF a]) (rule same_link_log_error, simp)
  have c: "same_link s (sendToMT4 c p (log_info ''Received:'' [m] s))" for m c p
    by (rule same_link_trans [OF a same_link_sendToMT4])
  have d: "same_link s (snd (sendTradeHistory w (log_info ''Received:'' [m] s)))" for m
    by (simp add: sendTradeHistory_def ws_send_def same_link_def link_up_def connect_attempts_def
        log_info_def is_connect_entry_def)
  have e: "same_link s (log_error ''Error processing message:'' x
              (snd (sendTradeHistory w (log_info ''Received:'' [m] s))))" for m x
    by (rule same_link_trans [OF d]) (rule same_link_log_error, simp)
  show ?thesis
  proof (cases parsed)
    case None
    then show ?thesis
      by (simp add: ws_on_message_def same_link_log_error)
  next
    case (Some m)
    then show ?thesis using a b c d [of m] e [of _ m]
      by (cases "sendTradeHistory w (log_info ''Received:'' [m] s)")
         (auto simp: ws_on_message_def Let_def split: sum.splits outcome.splits)
  qed
qed

lemma same_link_step: "same_link s (snd (step e s))"
proof (cases e)
  case (Connection w)
  then show ?thesis
    by (simp add: on_connection_def accept_def ws_send_def Let_def same_link_def link_up_def
        connect_attempts_def log_info_def is_connect_entry_def)
next
  case (WsMessage w parsed)
  then show ?thesis by (simp add: same_link_ws_on_message)
next
  case (WsReadyState w r)
  then show ?thesis by (simp add: same_link_def link_up_def connect_attempts_def)
next
  case (WsClose w)
  then show ?thesis
    by (simp add: ws_on_close_def Let_def same_link_def link_up_def connect_attempts_def
        log_info_def is_connect_entry_def)
next
  case (MT4Message parsed)
  then show ?thesis by (simp add: same_link_dealer_on_message same_link_refl)
next
  case (Tick d)
  then show ?thesis
    by (auto simp: tick_def broadcastMarketData_eq same_link_def link_up_def connect_attempts_def
        split: sum.splits)
next
  case GetMarketData
  then show ?thesis by (simp add: same_link_refl)
next
  case (PostCommand req_body)
  then show ?thesis
    by (auto simp: post_command_def same_link_sendToMT4 same_link_refl split: sum.splits)
next
  case Sigint
  then show ?thesis
    by (cases "dealer s")
       (simp_all add: on_sigint_def Let_def same_link_def link_up_def connect_attempts_def
        log_info_def is_connect_entry_def)
next
  case (Listening port)
  then show ?thesis by (simp add: same_link_log_info)
qed

lemma same_link_run: "same_link s (snd (run evs s))"
proof (induction evs arbitrary: s)
  case Nil
  then show ?case by (simp add: same_link_refl)
next
  case (Cons e evs)
  show ?case
  proof (cases "step e s")
    case (Pair out s')
    then have s': "same_link s s'" using same_link_step [of s e] by simp
    show ?thesis
    proof (cases out)
      case Normal
      then show ?thesis using Pair s' Cons.IH [of s'] by (auto intro: same_link_trans)
    next
      case (Thrown x)
      then show ?thesis using Pair s' by simp
    qed
  qed
qed

text \<open>
  C8 (amended). On start the program makes one connection attempt. When it fails (the
  socket cannot be created, or \<^verbatim>\<open>connect\<close> throws) the error is logged and no retry is ever
  made, with or without backoff: after every sequence of events the attempts made are
  still one and the link is still not connected.
\<close>

theorem no_retry_after_failed_start:
  assumes "z \<noteq> Connects"
  shows "connect_attempts (snd (run evs (startup z now))) = 1 \<and>
         \<not> link_up (snd (run evs (startup z now)))"
proof -
  have "connect_attempts (startup z now) = 1 \<and> \<not> link_up (startup z now)"
    using assms
    by (cases z) (simp_all add: startup_def connect_attempts_def link_up_def is_connect_entry_def)
  then show ?thesis
    using same_link_run [of "startup z now" evs] by (simp add: same_link_def)
qed

theorem no_retry_after_failed_start_witness:
  "ConnectThrows \<noteq> Connects \<and>
   connect_attempts
     (snd (run [Tick sample_draws, PostCommand buy_request, Tick sample_draws]
        (startup ConnectThrows sample_now))) = 1 \<and>
   \<not> link_up
     (snd (run [Tick sample_draws, PostCommand buy_request, Tick sample_draws]
        (startup ConnectThrows sample_now)))"
  using no_retry_after_failed_start [of ConnectThrows
      "[Tick sample_draws, PostCommand buy_request, Tick sample_draws]" sample_now]
  by simp

text \<open>
  The sample draws in double arithmetic: the bid is the double 1.0745, and the price of
  the first zone is 1.0799999999999998, not 1.08.
\<close>

lemma sample_draws_values:
  "fadd basePrice (fmul (fsub (rnd_movement sample_draws) 0.5) (fl 0.0020)) =
     2419558899804799 / 2251799813685248"
  "fadd basePrice (fl 0.0050) = 4863887597560135 / 4503599627370496"
  by code_simp+

lemma sample_draws_bid:
  "get_prop (simulated sample_draws) ''bid'' =
     Inr (JNum (2419558899804799 / 2251799813685248))"
  by code_simp

text \<open>
  C8 as stated fails: after a failed start, three runs of the 2000 ms timer and a command
  later, the process is alive, no second attempt was made and the dealer is still absent.
\<close>

theorem failed_start_is_never_retried:
  "fst (run [Tick sample_draws, Tick sample_draws, PostCommand buy_request, Tick sample_draws]
          no_dealer) = Normal \<and>
   dealer (snd (run [Tick sample_draws, Tick sample_draws, PostCommand buy_request,
                     Tick sample_draws] no_dealer)) = None \<and>
   connect_attempts (snd (run [Tick sample_draws, Tick sample_draws, PostCommand buy_request,
                     Tick sample_draws] no_dealer)) = 1"
proof -
  let ?s1 = "(startup SocketThrows sample_now)\<lparr>marketData := simulated sample_draws\<rparr>"
  have t1: "tick sample_draws no_dealer = (Normal, ?s1)"
    by (simp add: tick_def no_dealer_def startup_def initial_marketData_def broadcastMarketData_eq)
  have t2: "tick sample_draws ?s1 = (Normal, ?s1)"
    by (simp add: tick_def sample_draws_bid)
  have p: "post_command buy_request ?s1 = (Inr command_sent, ?s1)"
    by (simp add: post_command_def buy_request_def sendToMT4_def startup_def)
  have r: "run [Tick sample_draws, Tick sample_draws, PostCommand buy_request, Tick sample_draws]
             no_dealer = (Normal, ?s1)"
    by (simp add: t1 t2 p)
  show ?thesis
    unfolding r by (simp add: startup_def connect_attempts_def is_connect_entry_def)
qed

subsection \<open>The simulator\<close>

lemma tick_noop:
  "get_prop (marketData s) ''bid'' = Inr b \<Longrightarrow> b \<noteq> JNum 0 \<Longrightarrow> tick d s = (Normal, s)"
  by (simp add: tick_def)

lemma ticks_noop:
  "get_prop (marketData s) ''bid'' = Inr b \<Longrightarrow> b \<noteq> JNum 0 \<Longrightarrow>
   run (map Tick ds) s = (Normal, s)"
  by (induction ds) (simp_all add: tick_noop)

text \<open>
  The guard of the simulator. A run of it changes the stored snapshot only if the
  snapshot's \<open>bid\<close> is the number 0. While \<open>bid\<close> is anything else, any number of
  simulator runs in a row leaves the whole state as it is; so a live update whose
  \<open>bid\<close> is not 0 stays until the next update.
\<close>

theorem simulator_only_when_bid_zero:
  "(marketData (snd (tick d s)) \<noteq> marketData s \<longrightarrow>
      get_prop (marketData s) ''bid'' = Inr (JNum 0)) \<and>
   (\<forall>b. get_prop (marketData s) ''bid'' = Inr b \<and> b \<noteq> JNum 0 \<longrightarrow>
      run (map Tick ds) s = (Normal, s)) \<and>
   (\<forall>b. snapshot_update q \<and> get_prop q ''bid'' = Inr b \<and> b \<noteq> JNum 0 \<longrightarrow>
      marketData (snd (run (map Tick ds) (dealer_on_message (Some q) s))) = q)"
proof -
  have a: "marketData (snd (tick d s)) \<noteq> marketData s \<longrightarrow>
      get_prop (marketData s) ''bid'' = Inr (JNum 0)"
    by (auto simp: tick_def split: sum.splits)
  have c: "marketData (snd (run (map Tick ds) (dealer_on_message (Some q) s))) = q"
    if "snapshot_update q" "get_prop q ''bid'' = Inr b" "b \<noteq> JNum 0" for b
  proof -
    have m: "marketData (dealer_on_message (Some q) s) = q"
      using that(1) by (simp add: dealer_on_message_accept)
    then have "run (map Tick ds) (dealer_on_message (Some q) s) =
               (Normal, dealer_on_message (Some q) s)"
      using that(2,3) ticks_noop [of "dealer_on_message (Some q) s" b ds] by simp
    then show ?thesis using m by simp
  qed
  show ?thesis using a c ticks_noop [of s _ ds] by blast
qed

theorem simulator_only_when_bid_zero_witness:
  "get_prop (marketData three_clients) ''bid'' = Inr (JNum 0) \<and>
   marketData (snd (tick sample_draws three_clients)) = simulated sample_draws \<and>
   snapshot_update quote1 \<and> get_prop quote1 ''bid'' = Inr (JNum 1.0750) \<and>
   JNum 1.0750 \<noteq> JNum 0 \<and>
   run (map Tick [sample_draws, sample_draws]) (three_clients\<lparr>marketData := quote1\<rparr>) =
     (Normal, three_clients\<lparr>marketData := quote1\<rparr>) \<and>
   marketData (snd (run (map Tick [sample_draws, sample_draws])
      (dealer_on_message (Some quote1) three_clients))) = quote1"
proof -
  have "get_prop (marketData three_clients) ''bid'' = Inr (JNum 0)"
    by (simp add: three_clients_fields initial_marketData_def)
  moreover from this
  have "marketData (snd (tick sample_draws three_clients)) = simulated sample_draws"
    by (simp add: tick_def broadcastMarketData_eq)
  moreover have "get_prop (marketData (three_clients\<lparr>marketData := quote1\<rparr>)) ''bid'' =
      Inr (JNum 1.0750)"
    by (simp add: quote1_def)
  ultimately show ?thesis
    using simulator_only_when_bid_zero
        [of sample_draws three_clients "[sample_draws, sample_draws]" quote1]
      simulator_only_when_bid_zero
        [of sample_draws "three_clients\<lparr>marketData := quote1\<rparr>"
            "[sample_draws, sample_draws]" quote1]
    by (simp add: snapshot_update_def quote1_def)
qed

text \<open>
  C10. The simulator is meant for the time without live data (line 181), and its guard
  is \<open>bid === 0\<close>. The guard does not tell live data from no data: after a live quote with
  a non-zero bid and a simulator run that leaves it alone, a live quote whose bid is 0 is
  stored, and the next simulator run replaces it with simulated data.
\<close>

theorem live_zero_bid_overwritten:
  "snapshot_update zero_bid_quote \<and>
   marketData (snd (run live_then_zero_bid (startup Connects sample_now))) = zero_bid_quote \<and>
   fst (run (live_then_zero_bid @ [Tick sample_draws]) (startup Connects sample_now)) = Normal \<and>
   marketData (snd (run (live_then_zero_bid @ [Tick sample_draws]) (startup Connects sample_now))) =
     simulated sample_draws \<and>
   simulated sample_draws \<noteq> zero_bid_quote"
proof -
  let ?s0 = "startup Connects sample_now"
  let ?s1 = "dealer_on_message (Some quote1) ?s0"
  let ?s2 = "dealer_on_message (Some zero_bid_quote) ?s1"
  have q1: "snapshot_update quote1" by (simp add: snapshot_update_def quote1_def)
  have q0: "snapshot_update zero_bid_quote" by (simp add: snapshot_update_def zero_bid_quote_def)
  have d0: "dealer ?s0 \<noteq> None" by (simp add: startup_def)
  have m1: "marketData ?s1 = quote1" and d1: "dealer ?s1 \<noteq> None"
    using d0 by (simp_all add: dealer_on_message_accept [OF q1])
  have m2: "marketData ?s2 = zero_bid_quote"
    by (simp add: dealer_on_message_accept [OF q0])
  have b1: "get_prop (marketData ?s1) ''bid'' = Inr (JNum 1.0750)"
    unfolding m1 by (simp add: quote1_def)
  have t1: "tick sample_draws ?s1 = (Normal, ?s1)"
    by (rule tick_noop [OF b1]) simp
  have e1: "step (MT4Message (Some quote1)) ?s0 = (Normal, ?s1)"
    by (simp add: d0)
  have e2: "step (Tick sample_draws) ?s1 = (Normal, ?s1)"
    using t1 by simp
  have e3: "step (MT4Message (Some zero_bid_quote)) ?s1 = (Normal, ?s2)"
    by (simp add: d1)
  have r3: "run live_then_zero_bid ?s0 = (Normal, ?s2)"
    by (simp add: live_then_zero_bid_def e1 e2 e3 del: step.simps)
  have b2: "get_prop (marketData ?s2) ''bid'' = Inr (JNum 0)"
    unfolding m2 by (simp add: zero_bid_quote_def)
  have t2: "tick sample_draws ?s2 =
      broadcastMarketData (?s2\<lparr>marketData := simulated sample_draws\<rparr>)"
    by (simp add: tick_def b2)
  have e4: "step (Tick sample_draws) ?s2 =
      broadcastMarketData (?s2\<lparr>marketData := simulated sample_draws\<rparr>)"
    using t2 by simp
  have r4: "run (live_then_zero_bid @ [Tick sample_draws]) ?s0 =
      broadcastMarketData (?s2\<lparr>marketData := simulated sample_draws\<rparr>)"
    by (simp add: live_then_zero_bid_def e1 e2 e3 e4 broadcastMarketData_eq del: step.simps)
  have ne: "simulated sample_draws \<noteq> zero_bid_quote"
    by (simp add: simulated_def Let_def zero_bid_quote_def)
  show ?thesis
    using q0 ne by (simp add: r3 r4 m2 broadcastMarketData_eq)
qed

subsection \<open>The client set holds each socket once\<close>

lemma clients_sendToMT4: "clients (sendToMT4 c p s) = clients s"
  by (auto simp: sendToMT4_def dealer_send_def log_info_def log_error_def Let_def
      split: option.splits)

lemma clients_dealer_on_message: "clients (dealer_on_message parsed s) = clients s"
  by (auto simp: dealer_on_message_def broadcastMarketData_eq log_info_def log_error_def Let_def
      split: option.splits sum.splits)

lemma clients_ws_on_message: "clients (ws_on_message w parsed s) = clients s"
  by (auto simp: ws_on_message_def sendTradeHistory_def ws_send_def clients_sendToMT4
      log_info_def log_error_def Let_def split: option.splits sum.splits)

lemma distinct_clients_step:
  assumes "distinct (clients s)"
  shows "distinct (clients (snd (step e s)))"
proof (cases e)
  case (Connection w)
  then show ?thesis using assms
    by (simp add: on_connection_def accept_def ws_send_def set_add_def log_info_def Let_def)
next
  case (WsMessage w parsed)
  then show ?thesis using assms by (simp add: clients_ws_on_message)
next
  case (WsClose w)
  then show ?thesis using assms
    by (simp add: ws_on_close_def set_delete_def log_info_def Let_def distinct_removeAll)
next
  case (MT4Message parsed)
  then show ?thesis using assms by (simp add: clients_dealer_on_message)
next
  case (Tick d)
  then show ?thesis using assms
    by (auto simp: tick_def broadcastMarketData_eq split: sum.splits)
next
  case (PostCommand req_body)
  then show ?thesis using assms
    by (auto simp: post_command_def clients_sendToMT4 split: sum.splits)
next
  case Sigint
  then show ?thesis using assms by (simp add: on_sigint_def log_info_def Let_def)
next
  case (Listening port)
  then show ?thesis using assms by (simp add: log_info_def)
qed (use assms in simp_all)

lemma distinct_clients_run:
  "distinct (clients s) \<Longrightarrow> distinct (clients (snd (run evs s)))"
proof (induction evs arbitrary: s)
  case Nil
  then show ?case by simp
next
  case (Cons e evs)
  have "distinct (clients (snd (step e s)))"
    using Cons.prems by (rule distinct_clients_step)
  then show ?case using Cons.IH [of "snd (step e s)"]
    by (cases "step e s") (auto split: outcome.splits)
qed

lemma distinct_clients_reachable: "distinct (clients (snd (run evs (startup z now))))"
  by (rule distinct_clients_run) (simp add: startup_def)

end
